theory Spec2Isabelle
  imports Complex_Main "HOL-Library.Word"
begin

section \<open>Images and the imaging library\<close>

text \<open>
  The operators of \<^verbatim>\<open>src/data/augmentations.py\<close> work on PIL images. An image is
  modelled as its size \<open>(width, height)\<close> and its 8-bit channel values in raster order
  (what \<^verbatim>\<open>np.array(img)\<close> holds, flattened). Images are values: no operator of the
  source writes into its argument.

  A magnitude is a Python \<^verbatim>\<open>float\<close>; it is modelled as a \<open>real\<close>, with exact
  arithmetic and comparisons.
\<close>

record image =
  img_size :: "nat \<times> nat"
  pixels :: "8 word list"

type_synonym affine = "real \<times> real \<times> real \<times> real \<times> real \<times> real"

text \<open>
  The geometric, histogram and enhancement routines of the imaging library are not part
  of the repository; they are a parameter of the model. Each may fail (\<open>None\<close>), which
  stands for whatever exception the library raises. \<open>Image_transform\<close> is
  \<^verbatim>\<open>img.transform(size, PIL.Image.AFFINE, data)\<close>.
\<close>

record pil =
  Image_transform :: "image \<Rightarrow> nat \<times> nat \<Rightarrow> affine \<Rightarrow> image option"
  Image_rotate :: "image \<Rightarrow> real \<Rightarrow> image option"
  ImageOps_autocontrast :: "image \<Rightarrow> image option"
  ImageOps_equalize :: "image \<Rightarrow> image option"
  ImageOps_flip :: "image \<Rightarrow> image option"
  ImageOps_posterize :: "image \<Rightarrow> int \<Rightarrow> image option"
  ImageEnhance_Contrast :: "image \<Rightarrow> real \<Rightarrow> image option"
  ImageEnhance_Color :: "image \<Rightarrow> real \<Rightarrow> image option"
  ImageEnhance_Brightness :: "image \<Rightarrow> real \<Rightarrow> image option"
  ImageEnhance_Sharpness :: "image \<Rightarrow> real \<Rightarrow> image option"

text \<open>
  The two point operations whose pixel semantics the operators rely on are written out,
  for 8-bit channels: \<^verbatim>\<open>ImageOps.invert\<close> looks every value up in the table
  \<^verbatim>\<open>[255, 254, ..., 0]\<close>, and \<^verbatim>\<open>ImageOps.solarize(image, threshold)\<close> in the table
  \<^verbatim>\<open>[i if i < threshold else 255 - i for i in range(256)]\<close>.
\<close>

definition ImageOps_invert :: "image \<Rightarrow> image option" where
  "ImageOps_invert img = Some (img\<lparr>pixels := map (\<lambda>v. 255 - v) (pixels img)\<rparr>)"

definition solarize_lut :: "real \<Rightarrow> 8 word \<Rightarrow> 8 word" where
  "solarize_lut threshold v = (if real (unat v) < threshold then v else 255 - v)"

definition ImageOps_solarize :: "image \<Rightarrow> real \<Rightarrow> image option" where
  "ImageOps_solarize img threshold =
     Some (img\<lparr>pixels := map (solarize_lut threshold) (pixels img)\<rparr>)"

subsection \<open>Array operations used by SolarizeAdd\<close>

text \<open>Python's \<^verbatim>\<open>int(x)\<close> on a float, and a C cast: truncation towards zero.\<close>

definition py_int :: "real \<Rightarrow> int" where
  "py_int x = (if 0 \<le> x then \<lfloor>x\<rfloor> else \<lceil>x\<rceil>)"

text \<open>\<^verbatim>\<open>np.array(img, dtype=int)\<close>: the channel values as (64-bit) integers.\<close>

definition np_array_int :: "image \<Rightarrow> int list" where
  "np_array_int img = map uint (pixels img)"

text \<open>\<^verbatim>\<open>img + m\<close>: elementwise, the integers promoted to the type of \<open>m\<close>.\<close>

definition np_add :: "int list \<Rightarrow> real \<Rightarrow> real list" where
  "np_add a m = map (\<lambda>v. real_of_int v + m) a"

definition np_clip :: "real list \<Rightarrow> real \<Rightarrow> real \<Rightarrow> real list" where
  "np_clip a lo hi = map (\<lambda>x. min (max x lo) hi) a"

text \<open>\<^verbatim>\<open>a.astype(np.uint8)\<close>: truncate, then keep the low 8 bits.\<close>

definition astype_uint8 :: "real list \<Rightarrow> 8 word list" where
  "astype_uint8 a = map (\<lambda>x. word_of_int (py_int x)) a"

text \<open>\<^verbatim>\<open>PIL.Image.fromarray\<close>: the array keeps the shape of the image it came from.\<close>

definition Image_fromarray :: "nat \<times> nat \<Rightarrow> 8 word list \<Rightarrow> image" where
  "Image_fromarray sz a = \<lparr>img_size = sz, pixels = a\<rparr>"

section \<open>Operators\<close>

text \<open>
  One constructor per subclass of \<^verbatim>\<open>_BaseAugmentationOp\<close>. \<open>SolarizeAdd\<close> carries its
  own attribute \<^verbatim>\<open>self.threshold\<close>. The two attributes of the base class are the fields
  of the record \<open>operator\<close>.
\<close>

datatype op_class =
    ShearX | ShearY | TranslateX | TranslateY | TranslateXAbs | TranslateYAbs
  | Rotate | AutoContrast | Invert | Equalize | Flip | Solarize | SolarizeAdd int
  | Posterize | Contrast | Color | Brightness | Sharpness | Identity

record operator =
  op_class :: op_class
  magnitude_limit :: "(real \<times> real) option"
  random_mirror :: "bool option"

text \<open>\<^verbatim>\<open>_BaseAugmentationOp.__init__\<close>; both arguments default to \<^verbatim>\<open>None\<close>.\<close>

definition base_init :: "op_class \<Rightarrow> (real \<times> real) option \<Rightarrow> bool option \<Rightarrow> operator" where
  "base_init c ml rm = \<lparr>op_class = c, magnitude_limit = ml, random_mirror = rm\<rparr>"

text \<open>
  The constructors of the subclasses, and each class constructed with no argument
  (\<open>_default\<close>), which takes the default values of the signature.
\<close>

definition ShearX_init :: "real \<times> real \<Rightarrow> bool \<Rightarrow> operator" where
  "ShearX_init ml rm = base_init ShearX (Some ml) (Some rm)"

definition ShearX_default :: operator where
  "ShearX_default = ShearX_init (- 0.3, 0.3) True"

definition ShearY_init :: "real \<times> real \<Rightarrow> bool \<Rightarrow> operator" where
  "ShearY_init ml rm = base_init ShearY (Some ml) (Some rm)"

definition ShearY_default :: operator where
  "ShearY_default = ShearY_init (- 0.3, 0.3) True"

definition TranslateX_init :: "real \<times> real \<Rightarrow> bool \<Rightarrow> operator" where
  "TranslateX_init ml rm = base_init TranslateX (Some ml) (Some rm)"

definition TranslateX_default :: operator where
  "TranslateX_default = TranslateX_init (- 0.45, 0.45) True"

definition TranslateY_init :: "real \<times> real \<Rightarrow> bool \<Rightarrow> operator" where
  "TranslateY_init ml rm = base_init TranslateY (Some ml) (Some rm)"

definition TranslateY_default :: operator where
  "TranslateY_default = TranslateY_init (- 0.45, 0.45) True"

definition TranslateXAbs_init :: "real \<times> real \<Rightarrow> bool \<Rightarrow> operator" where
  "TranslateXAbs_init ml rm = base_init TranslateXAbs (Some ml) (Some rm)"

definition TranslateXAbs_default :: operator where
  "TranslateXAbs_default = TranslateXAbs_init (0, 10) True"

definition TranslateYAbs_init :: "real \<times> real \<Rightarrow> bool \<Rightarrow> operator" where
  "TranslateYAbs_init ml rm = base_init TranslateYAbs (Some ml) (Some rm)"

definition TranslateYAbs_default :: operator where
  "TranslateYAbs_default = TranslateYAbs_init (0, 10) True"

definition Rotate_init :: "real \<times> real \<Rightarrow> bool \<Rightarrow> operator" where
  "Rotate_init ml rm = base_init Rotate (Some ml) (Some rm)"

definition Rotate_default :: operator where
  "Rotate_default = Rotate_init (- 30, 30) True"

definition AutoContrast_default :: operator where
  "AutoContrast_default = base_init AutoContrast None None"

definition Invert_default :: operator where
  "Invert_default = base_init Invert None None"

definition Equalize_default :: operator where
  "Equalize_default = base_init Equalize None None"

definition Flip_default :: operator where
  "Flip_default = base_init Flip None None"

definition Solarize_init :: "real \<times> real \<Rightarrow> operator" where
  "Solarize_init ml = base_init Solarize (Some ml) None"

definition Solarize_default :: operator where
  "Solarize_default = Solarize_init (0, 256)"

definition SolarizeAdd_init :: "int \<Rightarrow> operator" where
  "SolarizeAdd_init threshold = base_init (SolarizeAdd threshold) None None"

definition SolarizeAdd_default :: operator where
  "SolarizeAdd_default = SolarizeAdd_init 128"

definition Posterize_default :: operator where
  "Posterize_default = base_init Posterize None None"

definition Contrast_init :: "real \<times> real \<Rightarrow> operator" where
  "Contrast_init ml = base_init Contrast (Some ml) None"

definition Contrast_default :: operator where
  "Contrast_default = Contrast_init (0.1, 1.9)"

definition Color_init :: "real \<times> real \<Rightarrow> operator" where
  "Color_init ml = base_init Color (Some ml) None"

definition Color_default :: operator where
  "Color_default = Color_init (0.1, 1.9)"

text \<open>
  \<open>Brightness\<close> and \<open>Sharpness\<close> pass only \<^verbatim>\<open>magnitude_limit\<close> to the base
  constructor, so \<^verbatim>\<open>random_mirror\<close> takes the base default \<^verbatim>\<open>None\<close>.
\<close>

definition Brightness_init :: "real \<times> real \<Rightarrow> operator" where
  "Brightness_init ml = base_init Brightness (Some ml) None"

definition Brightness_default :: operator where
  "Brightness_default = Brightness_init (0.1, 1.9)"

definition Sharpness_init :: "real \<times> real \<Rightarrow> operator" where
  "Sharpness_init ml = base_init Sharpness (Some ml) None"

definition Sharpness_default :: operator where
  "Sharpness_default = Sharpness_init (0.1, 1.9)"

definition Identity_default :: operator where
  "Identity_default = base_init Identity None None"

subsection \<open>The transformations\<close>

text \<open>
  \<^verbatim>\<open>_apply_transformation\<close> of each subclass. \<open>None\<close> is an exception of the imaging
  library passing through.
\<close>

definition SolarizeAdd_transformation :: "int \<Rightarrow> image \<Rightarrow> real \<Rightarrow> image option" where
  "SolarizeAdd_transformation threshold img m =
     (let a = np_array_int img;
          a = np_add a m;
          a = np_clip a 0 255;
          a = astype_uint8 a;
          img' = Image_fromarray (img_size img) a
      in ImageOps_solarize img' (real_of_int threshold))"

fun transformation :: "pil \<Rightarrow> op_class \<Rightarrow> image \<Rightarrow> real \<Rightarrow> image option" where
  "transformation P ShearX img m = Image_transform P img (img_size img) (1, m, 0, 0, 1, 0)"
| "transformation P ShearY img m = Image_transform P img (img_size img) (1, 0, 0, m, 1, 0)"
| "transformation P TranslateX img m =
     (let m = m * real (fst (img_size img))
      in Image_transform P img (img_size img) (1, 0, m, 0, 1, 0))"
| "transformation P TranslateY img m =
     (let m = m * real (snd (img_size img))
      in Image_transform P img (img_size img) (1, 0, 0, 0, 1, m))"
| "transformation P TranslateXAbs img m = Image_transform P img (img_size img) (1, 0, m, 0, 1, 0)"
| "transformation P TranslateYAbs img m = Image_transform P img (img_size img) (1, 0, 0, 0, 1, m)"
| "transformation P Rotate img m = Image_rotate P img m"
| "transformation P AutoContrast img m = ImageOps_autocontrast P img"
| "transformation P Invert img m = ImageOps_invert img"
| "transformation P Equalize img m = ImageOps_equalize P img"
| "transformation P Flip img m = ImageOps_flip P img"
| "transformation P Solarize img m = ImageOps_solarize img m"
| "transformation P (SolarizeAdd threshold) img m = SolarizeAdd_transformation threshold img m"
| "transformation P Posterize img m =
     (let m = max 1 (py_int m) in ImageOps_posterize P img m)"
| "transformation P Contrast img m = ImageEnhance_Contrast P img m"
| "transformation P Color img m = ImageEnhance_Color P img m"
| "transformation P Brightness img m = ImageEnhance_Brightness P img m"
| "transformation P Sharpness img m = ImageEnhance_Sharpness P img m"
| "transformation P Identity img m = Some img"

definition apply_transformation :: "pil \<Rightarrow> operator \<Rightarrow> image \<Rightarrow> real \<Rightarrow> image option" where
  "apply_transformation P slf img m = transformation P (op_class slf) img m"

subsection \<open>The shared call\<close>

text \<open>
  The state a call can reach: the operator object and the generator of the \<^verbatim>\<open>random\<close>
  module. The generator is the sequence of values \<^verbatim>\<open>random.random()\<close> will return and
  the number of values drawn so far.
\<close>

record random_state =
  draws :: "nat \<Rightarrow> real"
  used :: nat

definition random_random :: "random_state \<Rightarrow> real \<times> random_state" where
  "random_random g = (draws g (used g), g\<lparr>used := Suc (used g)\<rparr>)"

record world =
  self :: operator
  random :: random_state

text \<open>
  \<open>ValueError lo m hi\<close> is the \<^verbatim>\<open>ValueError\<close> raised by the range check, with the three
  numbers its message is formatted from; \<open>LibraryError\<close> is an exception of the imaging
  library.
\<close>

datatype error = ValueError real real real | LibraryError

text \<open>The range check of \<^verbatim>\<open>__call__\<close>: the error it raises, if any.\<close>

definition check_magnitude :: "operator \<Rightarrow> real \<Rightarrow> error option" where
  "check_magnitude slf magnitude =
     (case magnitude_limit slf of
        None \<Rightarrow> None
      | Some (min_magnitude, max_magnitude) \<Rightarrow>
          if \<not> (min_magnitude \<le> magnitude \<and> magnitude < max_magnitude)
          then Some (ValueError min_magnitude magnitude max_magnitude)
          else None)"

text \<open>
  \<^verbatim>\<open>if self.random_mirror and 0.5 < random.random(): magnitude = -magnitude\<close>.
  The conjunction is short-circuit: the generator is asked only when \<^verbatim>\<open>random_mirror\<close>
  is true.
\<close>

definition mirror :: "real \<Rightarrow> world \<Rightarrow> real \<times> world" where
  "mirror magnitude w =
     (if random_mirror (self w) = Some True
      then (let (r, g) = random_random (random w)
            in (if 0.5 < r then - magnitude else magnitude, w\<lparr>random := g\<rparr>))
      else (magnitude, w))"

text \<open>
  An exception raised inside \<^verbatim>\<open>_apply_transformation\<close> leaves \<^verbatim>\<open>__call__\<close> as it is.
\<close>

definition propagate :: "image option \<Rightarrow> error + image" where
  "propagate r = (case r of None \<Rightarrow> Inl LibraryError | Some img' \<Rightarrow> Inr img')"

text \<open>
  \<^verbatim>\<open>_BaseAugmentationOp.__call__\<close>, with the abstract method as the parameter \<open>tf\<close>.
\<close>

definition call ::
  "(operator \<Rightarrow> image \<Rightarrow> real \<Rightarrow> image option) \<Rightarrow> image \<Rightarrow> real \<Rightarrow> world
     \<Rightarrow> (error + image) \<times> world" where
  "call tf img magnitude w =
     (case check_magnitude (self w) magnitude of
        Some e \<Rightarrow> (Inl e, w)
      | None \<Rightarrow>
          (let (magnitude', w') = mirror magnitude w
           in (propagate (tf (self w') img magnitude'), w')))"

text \<open>Calling an operator: \<^verbatim>\<open>op(img, magnitude)\<close>.\<close>

definition apply_op :: "pil \<Rightarrow> image \<Rightarrow> real \<Rightarrow> world \<Rightarrow> (error + image) \<times> world" where
  "apply_op P img magnitude w = call (apply_transformation P) img magnitude w"

subsection \<open>Example inputs\<close>

text \<open>
  Concrete inputs on which the theorems below are instantiated: an imaging library whose
  routines all return their argument, a 100 x 1 image, and a generator that returns the
  same value \<open>r\<close> at every draw.
\<close>

definition example_pil :: pil where
  "example_pil =
     \<lparr>Image_transform = (\<lambda>img sz data. Some img),
      Image_rotate = (\<lambda>img m. Some img),
      ImageOps_autocontrast = Some,
      ImageOps_equalize = Some,
      ImageOps_flip = Some,
      ImageOps_posterize = (\<lambda>img bits. Some img),
      ImageEnhance_Contrast = (\<lambda>img m. Some img),
      ImageEnhance_Color = (\<lambda>img m. Some img),
      ImageEnhance_Brightness = (\<lambda>img m. Some img),
      ImageEnhance_Sharpness = (\<lambda>img m. Some img)\<rparr>"

definition example_image :: image where
  "example_image = \<lparr>img_size = (100, 1), pixels = replicate 100 250\<rparr>"

definition constant_random :: "real \<Rightarrow> random_state" where
  "constant_random r = \<lparr>draws = (\<lambda>n. r), used = 0\<rparr>"

section \<open>Properties of the shared call\<close>

lemma propagate_not_ValueError: "propagate r \<noteq> Inl (ValueError a b d)"
  by (simp add: propagate_def split: option.split)

text \<open>
  Claim C1. For every operator (any class, any configuration), image and magnitude \<open>m\<close>,
  the call raises the \<^verbatim>\<open>ValueError\<close> of the range check if and only if a
  \<^verbatim>\<open>magnitude_limit = (lo, hi)\<close> is configured and \<open>lo \<le> m < hi\<close> does not hold. With a
  limit \<open>(lo, hi)\<close>: an out-of-range \<open>m\<close> raises the error carrying \<open>lo\<close>, \<open>m\<close>, \<open>hi\<close>;
  \<open>m = hi\<close> is rejected; \<open>m = lo\<close> is accepted (the interval being non-empty, \<open>lo < hi\<close>,
  which is what the equivalence gives for \<open>m = lo\<close>). With no limit, the error is never
  raised.
\<close>

theorem apply_op_ValueError_iff:
  "((\<exists>a b d. fst (apply_op P img m w) = Inl (ValueError a b d)) \<longleftrightarrow>
      (\<exists>lo hi. magnitude_limit (self w) = Some (lo, hi) \<and> \<not> (lo \<le> m \<and> m < hi)))
   \<and> (magnitude_limit (self w) = Some (lo, hi) \<longrightarrow>
         (\<not> (lo \<le> m \<and> m < hi) \<longrightarrow> fst (apply_op P img m w) = Inl (ValueError lo m hi))
       \<and> (lo < hi \<longrightarrow> (\<forall>a b d. fst (apply_op P img lo w) \<noteq> Inl (ValueError a b d)))
       \<and> fst (apply_op P img hi w) = Inl (ValueError lo hi hi))
   \<and> (magnitude_limit (self w) = None \<longrightarrow>
         (\<forall>a b d. fst (apply_op P img m w) \<noteq> Inl (ValueError a b d)))"
  by (auto simp: apply_op_def call_def check_magnitude_def mirror_def random_random_def Let_def
      propagate_not_ValueError split: option.splits prod.splits if_splits)

theorem apply_op_ValueError_iff_witness:
  "magnitude_limit (self \<lparr>self = ShearX_default, random = constant_random 0.75\<rparr>) = Some (- 0.3, 0.3)
   \<and> (- 0.3 :: real) < 0.3
   \<and> \<not> (- 0.3 \<le> (0.5::real) \<and> (0.5::real) < 0.3)
   \<and> fst (apply_op example_pil example_image 0.5
        \<lparr>self = ShearX_default, random = constant_random 0.75\<rparr>) = Inl (ValueError (- 0.3) 0.5 0.3)
   \<and> (\<forall>a b d. fst (apply_op example_pil example_image (- 0.3)
        \<lparr>self = ShearX_default, random = constant_random 0.75\<rparr>) \<noteq> Inl (ValueError a b d))
   \<and> fst (apply_op example_pil example_image 0.3
        \<lparr>self = ShearX_default, random = constant_random 0.75\<rparr>) = Inl (ValueError (- 0.3) 0.3 0.3)
   \<and> magnitude_limit (self \<lparr>self = Identity_default, random = constant_random 0.75\<rparr>) = None
   \<and> (\<forall>a b d. fst (apply_op example_pil example_image 1000
        \<lparr>self = Identity_default, random = constant_random 0.75\<rparr>) \<noteq> Inl (ValueError a b d))"
  using apply_op_ValueError_iff [where P = example_pil and img = example_image and m = "0.5"
        and lo = "- 0.3" and hi = "0.3"
        and w = "\<lparr>self = ShearX_default, random = constant_random 0.75\<rparr>"]
    apply_op_ValueError_iff [where P = example_pil and img = example_image and m = 1000
        and w = "\<lparr>self = Identity_default, random = constant_random 0.75\<rparr>"]
  by (simp add: ShearX_default_def ShearX_init_def Identity_default_def base_init_def)

text \<open>
  Claim C2. With a configured limit \<open>(lo, hi)\<close> and a magnitude outside it, the call
  returns the \<^verbatim>\<open>ValueError\<close> and the state it was given: no value is drawn from the
  generator, the operator is as it was, and the result is the same whatever the
  transformation \<open>tf\<close> is, which is therefore not consulted.
\<close>

theorem call_rejects_before_mirror:
  "magnitude_limit (self w) = Some (lo, hi) \<Longrightarrow> \<not> (lo \<le> m \<and> m < hi) \<Longrightarrow>
     call tf img m w = (Inl (ValueError lo m hi), w)
     \<and> apply_op P img m w = (Inl (ValueError lo m hi), w)
     \<and> used (random (snd (call tf img m w))) = used (random w)"
  by (simp add: apply_op_def call_def check_magnitude_def)

theorem call_rejects_before_mirror_witness:
  "magnitude_limit (self \<lparr>self = ShearX_default, random = constant_random 0.75\<rparr>) = Some (- 0.3, 0.3)
   \<and> \<not> (- 0.3 \<le> (0.3::real) \<and> (0.3::real) < 0.3)
   \<and> call (\<lambda>slf img m. None) example_image 0.3 \<lparr>self = ShearX_default, random = constant_random 0.75\<rparr>
       = (Inl (ValueError (- 0.3) 0.3 0.3), \<lparr>self = ShearX_default, random = constant_random 0.75\<rparr>)
   \<and> apply_op example_pil example_image 0.3 \<lparr>self = ShearX_default, random = constant_random 0.75\<rparr>
       = (Inl (ValueError (- 0.3) 0.3 0.3), \<lparr>self = ShearX_default, random = constant_random 0.75\<rparr>)"
  using call_rejects_before_mirror [where w = "\<lparr>self = ShearX_default, random = constant_random 0.75\<rparr>"
        and lo = "- 0.3" and hi = "0.3" and m = "0.3" and tf = "\<lambda>slf img m. None"
        and img = example_image and P = example_pil]
  by (simp add: ShearX_default_def ShearX_init_def base_init_def)

text \<open>
  Claim C3, as stated: \<open>Brightness\<close> and \<open>Sharpness\<close> constructed with default arguments
  have the random sign mirror enabled. It does not hold: neither constructor passes
  \<^verbatim>\<open>random_mirror\<close> on, so the attribute is \<^verbatim>\<open>None\<close>.
\<close>

theorem Brightness_Sharpness_mirror_counterexample:
  "\<not> (random_mirror Brightness_default = Some True \<and> random_mirror Sharpness_default = Some True)"
  by (simp add: Brightness_default_def Brightness_init_def Sharpness_default_def
      Sharpness_init_def base_init_def)

text \<open>
  Claim C3, amended: \<open>Brightness\<close> and \<open>Sharpness\<close> constructed with default arguments have
  the magnitude range \<open>[0.1, 1.9)\<close> and no random sign mirror (\<^verbatim>\<open>random_mirror\<close> is
  \<^verbatim>\<open>None\<close>): the magnitude is delegated as given and no value is drawn.
\<close>

theorem Brightness_Sharpness_no_mirror:
  "random_mirror Brightness_default = None \<and> random_mirror Sharpness_default = None
   \<and> magnitude_limit Brightness_default = Some (0.1, 1.9)
   \<and> magnitude_limit Sharpness_default = Some (0.1, 1.9)
   \<and> mirror m \<lparr>self = Brightness_default, random = g\<rparr> = (m, \<lparr>self = Brightness_default, random = g\<rparr>)
   \<and> mirror m \<lparr>self = Sharpness_default, random = g\<rparr> = (m, \<lparr>self = Sharpness_default, random = g\<rparr>)"
  by (simp add: Brightness_default_def Brightness_init_def Sharpness_default_def
      Sharpness_init_def base_init_def mirror_def)

text \<open>
  Claim C4. With \<^verbatim>\<open>random_mirror\<close> true and a magnitude \<open>m\<close> that passes the range check,
  the call draws exactly one value \<open>r\<close> from the generator, delegates to the
  transformation with \<open>- m\<close> if \<open>0.5 < r\<close> and with \<open>m\<close> otherwise, and leaves the operator
  (its \<^verbatim>\<open>magnitude_limit\<close> and \<^verbatim>\<open>random_mirror\<close>) as it was. (That \<open>r\<close> is uniform in
  \<open>[0, 1)\<close> is a property of \<^verbatim>\<open>random.random\<close>; the statement holds for any value drawn.)
\<close>

theorem call_mirror_one_draw:
  "random_mirror (self w) = Some True \<Longrightarrow>
   (case magnitude_limit (self w) of None \<Rightarrow> True | Some (lo, hi) \<Rightarrow> lo \<le> m \<and> m < hi) \<Longrightarrow>
     call tf img m w =
       (propagate (tf (self w) img (if 0.5 < draws (random w) (used (random w)) then - m else m)),
        w\<lparr>random := (random w)\<lparr>used := Suc (used (random w))\<rparr>\<rparr>)
     \<and> self (snd (call tf img m w)) = self w
     \<and> used (random (snd (call tf img m w))) = used (random w) + 1"
  by (auto simp: call_def check_magnitude_def mirror_def random_random_def split: option.splits)

theorem call_mirror_one_draw_witness:
  "random_mirror (self \<lparr>self = ShearX_default, random = constant_random 0.75\<rparr>) = Some True
   \<and> (case magnitude_limit (self \<lparr>self = ShearX_default, random = constant_random 0.75\<rparr>) of
          None \<Rightarrow> True | Some (lo, hi) \<Rightarrow> lo \<le> (0.25::real) \<and> (0.25::real) < hi)
   \<and> call (\<lambda>slf img m. Some (img\<lparr>img_size := (if m < 0 then 1 else 2, 0)\<rparr>)) example_image 0.25
         \<lparr>self = ShearX_default, random = constant_random 0.75\<rparr>
       = (Inr (example_image\<lparr>img_size := (1, 0)\<rparr>),
          \<lparr>self = ShearX_default, random = \<lparr>draws = (\<lambda>n. 0.75), used = 1\<rparr>\<rparr>)
   \<and> random_mirror (self \<lparr>self = ShearX_default, random = constant_random 0.5\<rparr>) = Some True
   \<and> call (\<lambda>slf img m. Some (img\<lparr>img_size := (if m < 0 then 1 else 2, 0)\<rparr>)) example_image 0.25
         \<lparr>self = ShearX_default, random = constant_random 0.5\<rparr>
       = (Inr (example_image\<lparr>img_size := (2, 0)\<rparr>),
          \<lparr>self = ShearX_default, random = \<lparr>draws = (\<lambda>n. 0.5), used = 1\<rparr>\<rparr>)"
  using call_mirror_one_draw [where w = "\<lparr>self = ShearX_default, random = constant_random 0.75\<rparr>"
        and m = "0.25"
        and tf = "\<lambda>slf img m. Some (img\<lparr>img_size := (if m < 0 then 1 else 2, 0)\<rparr>)"
        and img = example_image]
    call_mirror_one_draw [where w = "\<lparr>self = ShearX_default, random = constant_random 0.5\<rparr>"
        and m = "0.25"
        and tf = "\<lambda>slf img m. Some (img\<lparr>img_size := (if m < 0 then 1 else 2, 0)\<rparr>)"
        and img = example_image]
  by (simp add: ShearX_default_def ShearX_init_def base_init_def constant_random_def
      propagate_def)

section \<open>Properties of the transformations\<close>

text \<open>
  Claim C5. For every image and delegated magnitude \<open>m\<close>, \<open>TranslateX\<close> applies the affine
  map \<open>(1, 0, m * width, 0, 1, 0)\<close>, with the width of the image it is given, and
  \<open>TranslateXAbs\<close> applies \<open>(1, 0, m, 0, 1, 0)\<close>; \<open>TranslateY\<close> and \<open>TranslateYAbs\<close>
  likewise with the height and the last coefficient. So on an image 100 pixels wide
  \<open>TranslateX\<close> with \<open>m = 0.1\<close> translates by 10, and \<open>TranslateXAbs\<close> with \<open>m = 10\<close>
  translates by 10 whatever the width.
\<close>

theorem Translate_affine:
  "apply_transformation P (slf\<lparr>op_class := TranslateX\<rparr>) img m
      = Image_transform P img (img_size img) (1, 0, m * real (fst (img_size img)), 0, 1, 0)
   \<and> apply_transformation P (slf\<lparr>op_class := TranslateXAbs\<rparr>) img m
      = Image_transform P img (img_size img) (1, 0, m, 0, 1, 0)
   \<and> apply_transformation P (slf\<lparr>op_class := TranslateY\<rparr>) img m
      = Image_transform P img (img_size img) (1, 0, 0, 0, 1, m * real (snd (img_size img)))
   \<and> apply_transformation P (slf\<lparr>op_class := TranslateYAbs\<rparr>) img m
      = Image_transform P img (img_size img) (1, 0, 0, 0, 1, m)
   \<and> (fst (img_size img) = 100 \<longrightarrow>
        apply_transformation P (slf\<lparr>op_class := TranslateX\<rparr>) img 0.1
          = Image_transform P img (img_size img) (1, 0, 10, 0, 1, 0))
   \<and> apply_transformation P (slf\<lparr>op_class := TranslateXAbs\<rparr>) img 10
      = Image_transform P img (img_size img) (1, 0, 10, 0, 1, 0)
   \<and> (snd (img_size img) = 100 \<longrightarrow>
        apply_transformation P (slf\<lparr>op_class := TranslateY\<rparr>) img 0.1
          = Image_transform P img (img_size img) (1, 0, 0, 0, 1, 10))
   \<and> apply_transformation P (slf\<lparr>op_class := TranslateYAbs\<rparr>) img 10
      = Image_transform P img (img_size img) (1, 0, 0, 0, 1, 10)"
  by (simp add: apply_transformation_def)

theorem Translate_affine_witness:
  "fst (img_size example_image) = 100
   \<and> apply_transformation
        (example_pil\<lparr>Image_transform := (\<lambda>img sz (a, b, c, d, e, f). Some (img\<lparr>pixels := [word_of_int \<lfloor>c\<rfloor>]\<rparr>))\<rparr>)
        TranslateX_default example_image 0.1
       = Some (example_image\<lparr>pixels := [10]\<rparr>)
   \<and> snd (img_size (example_image\<lparr>img_size := (1, 100)\<rparr>)) = 100
   \<and> apply_transformation
        (example_pil\<lparr>Image_transform := (\<lambda>img sz (a, b, c, d, e, f). Some (img\<lparr>pixels := [word_of_int \<lfloor>f\<rfloor>]\<rparr>))\<rparr>)
        TranslateY_default (example_image\<lparr>img_size := (1, 100)\<rparr>) 0.1
       = Some (example_image\<lparr>img_size := (1, 100), pixels := [10]\<rparr>)"
  using Translate_affine [where P = "example_pil\<lparr>Image_transform := (\<lambda>img sz (a, b, c, d, e, f). Some (img\<lparr>pixels := [word_of_int \<lfloor>c\<rfloor>]\<rparr>))\<rparr>"
        and slf = TranslateX_default and img = example_image]
    Translate_affine [where P = "example_pil\<lparr>Image_transform := (\<lambda>img sz (a, b, c, d, e, f). Some (img\<lparr>pixels := [word_of_int \<lfloor>f\<rfloor>]\<rparr>))\<rparr>"
        and slf = TranslateY_default and img = "example_image\<lparr>img_size := (1, 100)\<rparr>"]
  by (simp add: example_image_def example_pil_def TranslateX_default_def TranslateX_init_def
      TranslateY_default_def TranslateY_init_def base_init_def)

subsection \<open>SolarizeAdd\<close>

lemma py_int_of_int: "py_int (real_of_int k) = k"
  by (simp add: py_int_def)

lemma clip_of_int:
  "min (max (real_of_int a + real_of_int k) 0) 255 = real_of_int (min (max (a + k) 0) 255)"
  by (simp add: min_def max_def)

lemma uint_clamped: "uint (word_of_int (min (max k 0) 255) :: 8 word) = min (max k 0) 255"
  by (simp add: uint_word_of_int min_def max_def)

text \<open>
  Claim C6. \<open>SolarizeAdd\<close> has no magnitude limit and a threshold given at construction
  (128 by default). For every image and magnitude \<open>m\<close>, every channel value \<open>v\<close> becomes
  \<open>v + m\<close> computed outside the 8-bit type, is clamped on its own to \<open>[0, 255]\<close>, is
  converted back to 8 bits, and is then solarized with the threshold. For an integral
  \<open>m = k\<close> the whole computation is on integers and the 8-bit value before the solarize
  step is exactly \<open>min (max (v + k) 0) 255\<close>, with no wrap-around. A channel value 250
  with \<open>m = 20\<close> is 255 before the solarize step (and 0 after it, at threshold 128).
\<close>

theorem SolarizeAdd_clamp:
  "apply_transformation P (SolarizeAdd_init t) img m
     = Some \<lparr>img_size = img_size img,
             pixels = map (\<lambda>v. solarize_lut (real_of_int t)
                        (word_of_int (py_int (min (max (real_of_int (uint v) + m) 0) 255))))
                      (pixels img)\<rparr>
   \<and> apply_transformation P (SolarizeAdd_init t) img (real_of_int k)
     = Some \<lparr>img_size = img_size img,
             pixels = map (\<lambda>v. solarize_lut (real_of_int t)
                        (word_of_int (min (max (uint v + k) 0) 255)))
                      (pixels img)\<rparr>
   \<and> uint (word_of_int (min (max (uint (v :: 8 word) + k) 0) 255) :: 8 word)
       = min (max (uint v + k) 0) 255
   \<and> astype_uint8 (np_clip (np_add (np_array_int \<lparr>img_size = (1, 1), pixels = [250]\<rparr>) 20) 0 255)
       = [255]
   \<and> apply_transformation P SolarizeAdd_default \<lparr>img_size = (1, 1), pixels = [250]\<rparr> 20
       = Some \<lparr>img_size = (1, 1), pixels = [0]\<rparr>
   \<and> magnitude_limit SolarizeAdd_default = None
   \<and> op_class SolarizeAdd_default = SolarizeAdd 128"
proof -
  have gen: "apply_transformation P (SolarizeAdd_init t) img x
     = Some \<lparr>img_size = img_size img,
             pixels = map (\<lambda>v. solarize_lut (real_of_int t)
                        (word_of_int (py_int (min (max (real_of_int (uint v) + x) 0) 255))))
                      (pixels img)\<rparr>" for t img x
    by (simp add: apply_transformation_def SolarizeAdd_init_def base_init_def
        SolarizeAdd_transformation_def np_array_int_def np_add_def np_clip_def astype_uint8_def
        Image_fromarray_def ImageOps_solarize_def comp_def)
  have int_case: "py_int (min (max (real_of_int (uint v) + real_of_int k) 0) 255)
      = min (max (uint v + k) 0) 255" for v :: "8 word"
    by (simp only: clip_of_int py_int_of_int)
  have gi: "apply_transformation P (SolarizeAdd_init t) img (real_of_int k)
     = Some \<lparr>img_size = img_size img,
             pixels = map (\<lambda>v. solarize_lut (real_of_int t)
                        (word_of_int (min (max (uint v + k) 0) 255)))
                      (pixels img)\<rparr>"
    by (simp only: gen int_case)
  have ex: "astype_uint8 (np_clip (np_add (np_array_int \<lparr>img_size = (1, 1), pixels = [250]\<rparr>) 20) 0 255)
       = [255]"
    by (simp add: np_array_int_def np_add_def np_clip_def astype_uint8_def py_int_def)
  have fin: "apply_transformation P SolarizeAdd_default \<lparr>img_size = (1, 1), pixels = [250]\<rparr> 20
       = Some \<lparr>img_size = (1, 1), pixels = [0]\<rparr>"
    by (simp add: SolarizeAdd_default_def gen py_int_def solarize_lut_def)
  have cfg: "magnitude_limit SolarizeAdd_default = None"
    "op_class SolarizeAdd_default = SolarizeAdd 128"
    by (simp_all add: SolarizeAdd_default_def SolarizeAdd_init_def base_init_def)
  show ?thesis
    by (intro conjI) (rule gen gi ex fin cfg uint_clamped)+
qed

subsection \<open>Posterize\<close>

lemma max1_py_int: "max 1 (py_int m) = max 1 \<lfloor>m\<rfloor>"
  by (auto simp: py_int_def max_def)

text \<open>
  Claim C7. \<open>Posterize\<close> checks no magnitude, and for every image and magnitude \<open>m\<close> it
  posterizes to \<open>max(1, int(m))\<close> bits, which equals \<open>max(1, floor(m))\<close> for every \<open>m\<close>
  (truncation and floor differ only below zero, where the maximum is 1) and is at least
  1; for \<open>m = 0.5\<close> it is 1.
\<close>

theorem Posterize_bits:
  "apply_transformation P (slf\<lparr>op_class := Posterize\<rparr>) img m = ImageOps_posterize P img (max 1 \<lfloor>m\<rfloor>)
   \<and> max 1 (py_int m) = max 1 \<lfloor>m\<rfloor>
   \<and> 1 \<le> max 1 (py_int m)
   \<and> apply_transformation P (slf\<lparr>op_class := Posterize\<rparr>) img 0.5 = ImageOps_posterize P img 1
   \<and> magnitude_limit Posterize_default = None
   \<and> check_magnitude Posterize_default m = None
   \<and> op_class Posterize_default = Posterize"
  using max1_py_int [of m] max1_py_int [of "0.5"]
  by (simp add: apply_transformation_def check_magnitude_def Posterize_default_def base_init_def)

subsection \<open>Invert and Identity\<close>

lemma unat_invert: "unat (255 - v :: 8 word) = 255 - unat v"
proof -
  have "unat v < 2 ^ LENGTH(8)" by (rule unsigned_less)
  then have "v \<le> 255" by (simp add: word_le_nat_alt)
  then show ?thesis by (simp add: unat_sub)
qed

text \<open>
  Claim C8. \<open>Invert\<close> maps every channel value \<open>v\<close> to \<open>255 - v\<close>, and applying it twice
  gives the original image back, for every image and magnitude: the call on the
  inverted image returns the image the first call was given.
\<close>

theorem Invert_involutive:
  "apply_op P img m \<lparr>self = Invert_default, random = g\<rparr>
     = (Inr (img\<lparr>pixels := map (\<lambda>v. 255 - v) (pixels img)\<rparr>), \<lparr>self = Invert_default, random = g\<rparr>)
   \<and> apply_op P (img\<lparr>pixels := map (\<lambda>v. 255 - v) (pixels img)\<rparr>) m \<lparr>self = Invert_default, random = g\<rparr>
     = (Inr img, \<lparr>self = Invert_default, random = g\<rparr>)
   \<and> Option.bind (apply_transformation P (slf\<lparr>op_class := Invert\<rparr>) img m)
        (\<lambda>img'. apply_transformation P (slf\<lparr>op_class := Invert\<rparr>) img' m) = Some img
   \<and> (\<forall>v :: 8 word. unat (255 - v) = 255 - unat v)"
  by (simp add: apply_op_def call_def check_magnitude_def mirror_def propagate_def
      apply_transformation_def Invert_default_def base_init_def ImageOps_invert_def comp_def
      unat_invert)

text \<open>
  Claim C9. \<open>Identity\<close> has no magnitude limit and no mirror; for every image and
  magnitude the call succeeds, returns the image it was given, and draws nothing.
\<close>

theorem Identity_unchanged:
  "apply_op P img m \<lparr>self = Identity_default, random = g\<rparr>
     = (Inr img, \<lparr>self = Identity_default, random = g\<rparr>)
   \<and> magnitude_limit Identity_default = None \<and> random_mirror Identity_default = None"
  by (simp add: apply_op_def call_def check_magnitude_def mirror_def propagate_def
      apply_transformation_def Identity_default_def base_init_def)

section \<open>The range check and the mirror\<close>

text \<open>
  Claim C10. The range check sees only the magnitude the caller passes. \<open>TranslateXAbs\<close>
  and \<open>TranslateYAbs\<close>, with their default range \<open>[0, 10)\<close> and default mirror, accept
  every \<open>m\<close> with \<open>0 < m < 10\<close>, and whenever the value drawn is above 0.5 (such a value
  exists in \<open>[0, 1)\<close>) the transformation receives \<open>- m\<close>, which the range check itself
  would reject.
\<close>

theorem TranslateAbs_mirror_outside_limit:
  "0 < m \<Longrightarrow> m < 10 \<Longrightarrow>
     (0.5 < draws g (used g) \<longrightarrow>
        call tf img m \<lparr>self = TranslateXAbs_default, random = g\<rparr>
          = (propagate (tf TranslateXAbs_default img (- m)),
             \<lparr>self = TranslateXAbs_default, random = g\<lparr>used := Suc (used g)\<rparr>\<rparr>)
      \<and> call tf img m \<lparr>self = TranslateYAbs_default, random = g\<rparr>
          = (propagate (tf TranslateYAbs_default img (- m)),
             \<lparr>self = TranslateYAbs_default, random = g\<lparr>used := Suc (used g)\<rparr>\<rparr>)
      \<and> fst (apply_op P img m \<lparr>self = TranslateXAbs_default, random = g\<rparr>)
          = propagate (Image_transform P img (img_size img) (1, 0, - m, 0, 1, 0))
      \<and> fst (apply_op P img m \<lparr>self = TranslateYAbs_default, random = g\<rparr>)
          = propagate (Image_transform P img (img_size img) (1, 0, 0, 0, 1, - m)))
     \<and> (\<exists>r. 0 \<le> r \<and> r < 1 \<and>
           call tf img m \<lparr>self = TranslateXAbs_default, random = constant_random r\<rparr>
             = (propagate (tf TranslateXAbs_default img (- m)),
                \<lparr>self = TranslateXAbs_default, random = (constant_random r)\<lparr>used := 1\<rparr>\<rparr>))
     \<and> check_magnitude TranslateXAbs_default m = None
     \<and> check_magnitude TranslateXAbs_default (- m) = Some (ValueError 0 (- m) 10)
     \<and> check_magnitude TranslateYAbs_default m = None
     \<and> check_magnitude TranslateYAbs_default (- m) = Some (ValueError 0 (- m) 10)
     \<and> \<not> (0 \<le> - m \<and> - m < 10)"
proof -
  assume m: "0 < m" "m < 10"
  have ex: "\<exists>r. 0 \<le> r \<and> r < 1 \<and>
           call tf img m \<lparr>self = TranslateXAbs_default, random = constant_random r\<rparr>
             = (propagate (tf TranslateXAbs_default img (- m)),
                \<lparr>self = TranslateXAbs_default, random = (constant_random r)\<lparr>used := 1\<rparr>\<rparr>)"
    using m
    by (intro exI [of _ "0.75"])
      (simp add: call_def check_magnitude_def mirror_def random_random_def constant_random_def
        TranslateXAbs_default_def TranslateXAbs_init_def base_init_def)
  show ?thesis
    using m ex
    by (simp add: apply_op_def call_def check_magnitude_def mirror_def random_random_def
        apply_transformation_def TranslateXAbs_default_def TranslateXAbs_init_def
        TranslateYAbs_default_def TranslateYAbs_init_def base_init_def)
qed

theorem TranslateAbs_mirror_outside_limit_witness:
  "(0::real) < 5 \<and> (5::real) < 10
   \<and> 0.5 < draws (constant_random 0.75) (used (constant_random 0.75))
   \<and> call (\<lambda>slf img m. Some (img\<lparr>img_size := (if m < 0 then 1 else 2, 0)\<rparr>)) example_image 5
         \<lparr>self = TranslateXAbs_default, random = constant_random 0.75\<rparr>
       = (Inr (example_image\<lparr>img_size := (1, 0)\<rparr>),
          \<lparr>self = TranslateXAbs_default, random = \<lparr>draws = (\<lambda>n. 0.75), used = 1\<rparr>\<rparr>)
   \<and> check_magnitude TranslateXAbs_default (- 5) = Some (ValueError 0 (- 5) 10)"
  using TranslateAbs_mirror_outside_limit [where m = 5 and g = "constant_random 0.75"
        and tf = "\<lambda>slf img m. Some (img\<lparr>img_size := (if m < 0 then 1 else 2, 0)\<rparr>)"
        and img = example_image and P = example_pil]
  by (simp add: constant_random_def propagate_def)

end
